theory Spec2Isabelle
  imports Complex_Main "HOL-Library.Sublist" "HOL-Library.Log_Nat"
begin

section \<open>Data model\<close>

text \<open>
  A Python float is a finite value, one of the two infinities, or NaN. A finite value
  is held as a \<^typ>\<open>real\<close>: the only float arithmetic in the code is \<open>abs\<close> and the
  product with \<open>1.0\<close>, \<open>-1.0\<close> or \<open>0.0\<close>, which are exact on finite floats (the two
  zeros are not told apart; they compare equal). Comparisons follow IEEE 754: every
  comparison with NaN is false, also \<open>NaN == NaN\<close>.
\<close>

datatype pyfloat = Finite real | PosInf | NegInf | NaN

fun fabs :: "pyfloat \<Rightarrow> pyfloat" where
  "fabs (Finite r) = Finite \<bar>r\<bar>"
| "fabs PosInf = PosInf"
| "fabs NegInf = PosInf"
| "fabs NaN = NaN"

fun fmul :: "pyfloat \<Rightarrow> pyfloat \<Rightarrow> pyfloat" where
  "fmul NaN y = NaN"
| "fmul x NaN = NaN"
| "fmul (Finite a) (Finite b) = Finite (a * b)"
| "fmul (Finite a) PosInf = (if a = 0 then NaN else if 0 < a then PosInf else NegInf)"
| "fmul (Finite a) NegInf = (if a = 0 then NaN else if 0 < a then NegInf else PosInf)"
| "fmul PosInf (Finite b) = (if b = 0 then NaN else if 0 < b then PosInf else NegInf)"
| "fmul NegInf (Finite b) = (if b = 0 then NaN else if 0 < b then NegInf else PosInf)"
| "fmul PosInf PosInf = PosInf"
| "fmul PosInf NegInf = NegInf"
| "fmul NegInf PosInf = NegInf"
| "fmul NegInf NegInf = PosInf"



text \<open>\<open>services/sentiment_analyzer.py\<close>: \<open>class SentimentLabel(str, Enum)\<close>.\<close>

datatype SentimentLabel = POSITIVE | NEGATIVE | NEUTRAL

text \<open>\<open>services/external_api.py\<close>: \<open>class APIProvider(str, Enum)\<close>, one member.\<close>

datatype APIProvider = HUGGINGFACE

fun provider_value :: "APIProvider \<Rightarrow> string" where
  "provider_value HUGGINGFACE = ''huggingface''"

text \<open>
  What \<open>response.json()\<close> can return: a decoded JSON document. A number is an
  int or a float; the decoder also accepts \<open>NaN\<close>, \<open>Infinity\<close> and
  \<open>-Infinity\<close> and reads a literal beyond the double range as an infinity. An
  object is the list of its items in insertion order (a Python dict has no duplicate
  keys, so the first binding of a key is its only one).
\<close>

datatype json =
    JNull
  | JBool bool
  | JInt int
  | JFloat pyfloat
  | JStr string
  | JList "json list"
  | JObj "(string \<times> json) list"

text \<open>
  Exceptions as values. \<open>ExternalAPIError provider message status_code\<close> is the class
  of \<open>external_api.py\<close>; \<open>PyException prefix e\<close> is
  \<open>Exception(f"{prefix}{str(e)}")\<close>. A message is kept structured instead of
  being rendered to text: \<open>StrOf e\<close> stands for \<open>str(e)\<close>.
\<close>

datatype message =
    Text string
  | RequestFailed int string
  | UnexpectedFormat json
  | UnsupportedProvider APIProvider
  | StrOf error
and error =
    ExternalAPIError string message "int option"
  | RequestException string
  | TypeError
  | AttributeError
  | KeyError
  | ValueError
  | OverflowError
  | PyException string error

text \<open>
  \<open>float(n)\<close> of a Python int, as the product of an int with a float computes it:
  exact below \<open>2^53\<close>, rounded to 53 significant bits (ties to even) above, and
  \<open>OverflowError\<close> when the rounded value does not fit a double.
\<close>

definition float_of_int :: "int \<Rightarrow> error + pyfloat" where
  "float_of_int n =
     (let m = \<bar>n\<bar> in
      if m < 2 ^ 53 then Inr (Finite (of_int n))
      else
        (let sh = nat (bitlen m - 53);
             q = m div 2 ^ sh;
             r = m mod 2 ^ sh;
             q' = (if 2 * r > 2 ^ sh \<or> (2 * r = 2 ^ sh \<and> odd q) then q + 1 else q);
             v = q' * 2 ^ sh
         in if v \<ge> 2 ^ 1024 then Inl OverflowError
            else Inr (Finite (of_int (sgn n * v)))))"

text \<open>Values stored in the dicts that the services return.\<close>

datatype pyval =
    VNone
  | VStr string
  | VFloat pyfloat
  | VProvider APIProvider
  | VLabel SentimentLabel
  | VDict "(string \<times> pyval) list"

type_synonym pydict = "(string \<times> pyval) list"

definition keys :: "pydict \<Rightarrow> string list" where
  "keys d = map fst d"

definition getitem :: "pydict \<Rightarrow> string \<Rightarrow> pyval option" where
  "getitem d k = map_of d k"

section \<open>\<open>services/sentiment_analyzer.py\<close>\<close>

text \<open>
  The dict returned by NLTK's \<open>SentimentIntensityAnalyzer.polarity_scores\<close>. The
  scorer itself is a third-party library, not part of the sources: it is a parameter
  \<open>vader\<close> of the model, a function from the text to the scores or to the exception
  it raises. Its four scores are finite floats.
\<close>

record vader_scores =
  neg :: real
  neu :: real
  pos :: real
  compound :: real

type_synonym polarity_scores = "string \<Rightarrow> error + vader_scores"

definition analyze_with_vader :: "polarity_scores \<Rightarrow> string \<Rightarrow> error + vader_scores" where
  "analyze_with_vader vader txt = vader txt"

definition get_sentiment_label :: "real \<Rightarrow> SentimentLabel" where
  "get_sentiment_label compound_score =
     (if compound_score \<ge> 0.05 then POSITIVE
      else if compound_score \<le> - 0.05 then NEGATIVE
      else NEUTRAL)"

definition analyze :: "polarity_scores \<Rightarrow> string \<Rightarrow> error + pydict" where
  "analyze vader txt =
     (case analyze_with_vader vader txt of
        Inl e \<Rightarrow> Inl e
      | Inr vader_scores \<Rightarrow>
          (let compound_score = compound vader_scores;
               sentiment_label = get_sentiment_label compound_score
           in Inr [(''scores'', VDict [(''positive'', VFloat (Finite (pos vader_scores))),
                                        (''negative'', VFloat (Finite (neg vader_scores))),
                                        (''neutral'', VFloat (Finite (neu vader_scores))),
                                        (''compound'', VFloat (Finite compound_score))]),
                   (''label'', VLabel sentiment_label),
                   (''text'', VStr txt)]))"

definition analyze_text :: "polarity_scores \<Rightarrow> string \<Rightarrow> error + pydict" where
  "analyze_text vader txt =
     (case analyze vader txt of
        Inr result \<Rightarrow> Inr result
      | Inl e \<Rightarrow> Inl (PyException ''Failed to analyze text: '' e))"

section \<open>\<open>services/external_api.py\<close>\<close>

text \<open>
  Strings are ASCII: \<open>str.lower\<close> maps \<open>A\<close>..\<open>Z\<close> to \<open>a\<close>..\<open>z\<close> and leaves
  every other character alone.
\<close>

definition lower_char :: "char \<Rightarrow> char" where
  "lower_char c =
     (let n = (of_char c :: nat) in if 65 \<le> n \<and> n \<le> 90 then char_of (n + 32) else c)"

definition lower :: "string \<Rightarrow> string" where
  "lower s = map lower_char s"

text \<open>
  The module constant \<open>HUGGINGFACE_API_KEY = os.getenv(...)\<close> is a parameter \<open>key\<close>
  of the model; \<open>is_set key\<close> is its truth value (\<open>None\<close> and the empty string are
  falsy).
\<close>

definition is_set :: "string option \<Rightarrow> bool" where
  "is_set key = (case key of None \<Rightarrow> False | Some k \<Rightarrow> k \<noteq> [])"

text \<open>
  The network is a parameter too: \<open>net n\<close> is what the \<open>n\<close>-th call of
  \<open>requests.post\<close> does, either raising or returning a response, whose \<open>json()\<close>
  in turn raises or returns the decoded body.
\<close>

record response =
  status_code :: int
  body_text :: string
  body_json :: "error + json"

datatype http_outcome = PostRaises error | PostReturns response

type_synonym network = "nat \<Rightarrow> http_outcome"

text \<open>
  The effects of a run: how many times the body of \<open>analyze_with_huggingface\<close> was
  entered, how many requests were posted, and the values that the wait generator
  \<open>backoff.expo\<close> produced for the sleeps between tries (with the library's default
  jitter the time slept is drawn between zero and that value; time and randomness are
  not modelled).
\<close>

record world =
  calls :: nat
  posts :: nat
  sleeps :: "nat list"

text \<open>
  \<open>class SentimentResult(dict)\<close>: the five keys its constructor stores
  (\<open>result_text\<close> is the key \<open>text\<close>).
\<close>

record SentimentResult =
  provider :: APIProvider
  result_text :: string
  sentiment :: string
  score :: pyfloat
  raw_response :: json

text \<open>The Python operations applied to the decoded body.\<close>

fun contains_label :: "json \<Rightarrow> error + bool" where
  "contains_label (JObj items) = Inr (''label'' \<in> set (map fst items))"
| "contains_label (JList xs) = Inr (JStr ''label'' \<in> set xs)"
| "contains_label (JStr s) = Inr (sublist ''label'' s)"
| "contains_label _ = Inl TypeError"

fun getitem_label :: "json \<Rightarrow> error + json" where
  "getitem_label (JObj items) =
     (case map_of items ''label'' of Some v \<Rightarrow> Inr v | None \<Rightarrow> Inl KeyError)"
| "getitem_label _ = Inl TypeError"

fun str_lower :: "json \<Rightarrow> error + string" where
  "str_lower (JStr s) = Inr (lower s)"
| "str_lower _ = Inl AttributeError"

fun get_score :: "json \<Rightarrow> json" where
  "get_score (JObj items) =
     (case map_of items ''score'' of Some v \<Rightarrow> v | None \<Rightarrow> JFloat (Finite 0.0))"
| "get_score _ = JFloat (Finite 0.0)"

text \<open>
  \<open>abs(score)\<close> is an int for an int or a bool and a float for a float, and raises
  \<open>TypeError\<close> for anything else; \<open>abs(score) * score_sign\<close> then converts an int
  to float before multiplying.
\<close>

datatype pynum = PInt int | PFloat pyfloat

fun py_abs :: "json \<Rightarrow> error + pynum" where
  "py_abs (JInt n) = Inr (PInt \<bar>n\<bar>)"
| "py_abs (JBool b) = Inr (PInt (if b then 1 else 0))"
| "py_abs (JFloat f) = Inr (PFloat (fabs f))"
| "py_abs _ = Inl TypeError"

fun times_float :: "pynum \<Rightarrow> pyfloat \<Rightarrow> error + pyfloat" where
  "times_float (PFloat f) s = Inr (fmul f s)"
| "times_float (PInt n) s =
     (case float_of_int n of Inl e \<Rightarrow> Inl e | Inr f \<Rightarrow> Inr (fmul f s))"

text \<open>Lines 100 to 135: from the decoded body to the standardized result.\<close>

definition parse_response :: "string \<Rightarrow> json \<Rightarrow> error + SentimentResult" where
  "parse_response txt result0 =
     (let result = (case result0 of JList (x # xs) \<Rightarrow> x | _ \<Rightarrow> result0) in
      case contains_label result of
        Inl e \<Rightarrow> Inl e
      | Inr False \<Rightarrow>
          Inl (ExternalAPIError ''HuggingFace'' (UnexpectedFormat result) (Some 200))
      | Inr True \<Rightarrow>
          (case getitem_label result of
             Inl e \<Rightarrow> Inl e
           | Inr l \<Rightarrow>
               (case str_lower l of
                  Inl e \<Rightarrow> Inl e
                | Inr sentiment0 \<Rightarrow>
                    (let score0 = get_score result;
                         (sentiment1, score_sign) =
                            (if sentiment0 = ''positive'' then (''positive'', Finite 1.0)
                             else if sentiment0 = ''negative'' then (''negative'', Finite (- 1.0))
                             else (''neutral'', Finite 0.0))
                     in case py_abs score0 of
                          Inl e \<Rightarrow> Inl e
                        | Inr a \<Rightarrow>
                            (case times_float a score_sign of
                               Inl e \<Rightarrow> Inl e
                             | Inr score1 \<Rightarrow>
                                 Inr \<lparr>provider = HUGGINGFACE, result_text = txt,
                                      sentiment = sentiment1, score = score1,
                                      raw_response = result\<rparr>)))))"

text \<open>
  The handler \<open>except requests.exceptions.RequestException as e\<close> around the request
  and the parsing: a \<open>RequestException\<close> becomes an \<open>ExternalAPIError\<close> without
  status code, every other exception passes through.
\<close>

fun on_request_exception :: "error \<Rightarrow> error" where
  "on_request_exception (RequestException s) =
     ExternalAPIError ''HuggingFace'' (StrOf (RequestException s)) None"
| "on_request_exception e = e"

definition handle_response :: "string \<Rightarrow> response \<Rightarrow> error + SentimentResult" where
  "handle_response txt r =
     (if status_code r \<noteq> 200
      then Inl (ExternalAPIError ''HuggingFace''
                  (RequestFailed (status_code r) (body_text r)) (Some (status_code r)))
      else case body_json r of
             Inl e \<Rightarrow> Inl e
           | Inr result \<Rightarrow> parse_response txt result)"

text \<open>The body of \<open>analyze_with_huggingface\<close>, without its decorator.\<close>

definition huggingface_body ::
  "string option \<Rightarrow> network \<Rightarrow> string \<Rightarrow> world \<Rightarrow> (error + SentimentResult) \<times> world" where
  "huggingface_body key net txt w =
     (let w1 = w\<lparr>calls := calls w + 1\<rparr> in
      if \<not> is_set key
      then (Inl (ExternalAPIError ''HuggingFace'' (Text ''API key not set'') (Some 400)), w1)
      else
        (let w2 = w1\<lparr>posts := posts w1 + 1\<rparr> in
         case net (posts w1) of
           PostRaises e \<Rightarrow> (Inl (on_request_exception e), w2)
         | PostReturns r \<Rightarrow>
             (case handle_response txt r of
                Inl e \<Rightarrow> (Inl (on_request_exception e), w2)
              | Inr res \<Rightarrow> (Inr res, w2))))"

text \<open>
  The decorator \<open>backoff.on_exception(backoff.expo, (RequestException,
  ExternalAPIError), max_tries=3)\<close>: call the target; when it raises one of the listed
  exceptions and tries remain, sleep for the next value of the wait generator and call
  it again; otherwise re-raise. \<open>retry k n\<close> has \<open>k\<close> tries left after the current
  one and has slept \<open>n\<close> times.
\<close>

fun retryable :: "error \<Rightarrow> bool" where
  "retryable (RequestException s) = True"
| "retryable (ExternalAPIError p m c) = True"
| "retryable _ = False"

definition expo :: "nat \<Rightarrow> nat" where
  "expo n = 2 ^ n"

definition max_tries :: nat where
  "max_tries = 3"

fun retry ::
  "nat \<Rightarrow> nat \<Rightarrow> (world \<Rightarrow> (error + 'a) \<times> world) \<Rightarrow> world \<Rightarrow> (error + 'a) \<times> world" where
  "retry 0 n target w = target w"
| "retry (Suc k) n target w =
     (case target w of
        (Inr ret, w') \<Rightarrow> (Inr ret, w')
      | (Inl e, w') \<Rightarrow>
          if retryable e
          then retry k (Suc n) target (w'\<lparr>sleeps := sleeps w' @ [expo n]\<rparr>)
          else (Inl e, w'))"

definition analyze_with_huggingface ::
  "string option \<Rightarrow> network \<Rightarrow> string \<Rightarrow> world \<Rightarrow> (error + SentimentResult) \<times> world" where
  "analyze_with_huggingface key net txt w =
     retry (max_tries - 1) 0 (huggingface_body key net txt) w"

text \<open>
  \<open>SentimentAnalysisAPI.analyze\<close>. Its handler wraps an \<open>ExternalAPIError\<close> of the
  HuggingFace call in a new one that keeps the status code.
\<close>

fun rewrap :: "error \<Rightarrow> error" where
  "rewrap (ExternalAPIError p m c) =
     ExternalAPIError ''HuggingFace'' (StrOf (ExternalAPIError p m c)) c"
| "rewrap e = e"

definition SentimentAnalysisAPI_analyze ::
  "string option \<Rightarrow> network \<Rightarrow> string \<Rightarrow> APIProvider option \<Rightarrow> world
     \<Rightarrow> (error + SentimentResult) \<times> world" where
  "SentimentAnalysisAPI_analyze key net txt prov w =
     (case (case prov of None \<Rightarrow> None
                       | Some p \<Rightarrow> if p \<noteq> HUGGINGFACE then Some p else None) of
        Some p \<Rightarrow> (Inl (ExternalAPIError ''Provider'' (UnsupportedProvider p) (Some 400)), w)
      | None \<Rightarrow>
          if is_set key
          then (case analyze_with_huggingface key net txt w of
                  (Inr res, w') \<Rightarrow> (Inr res, w')
                | (Inl e, w') \<Rightarrow> (Inl (rewrap e), w'))
          else (Inl (ExternalAPIError ''All providers''
                       (Text ''No sentiment analysis providers available'') (Some 500)), w))"

text \<open>\<open>APIProvider(s)\<close>: the member whose value is \<open>s\<close>, or \<open>ValueError\<close>.\<close>

definition APIProvider_of :: "string \<Rightarrow> error + APIProvider" where
  "APIProvider_of s = (if s = provider_value HUGGINGFACE then Inr HUGGINGFACE else Inl ValueError)"

definition analyze_with_external_api ::
  "string option \<Rightarrow> network \<Rightarrow> string \<Rightarrow> string option \<Rightarrow> world \<Rightarrow> (error + pydict) \<times> world" where
  "analyze_with_external_api key net txt prov w =
     (let api_provider =
            (case prov of
               None \<Rightarrow> None
             | Some p \<Rightarrow>
                 if p = [] then None
                 else (case APIProvider_of (lower p) of
                         Inr a \<Rightarrow> Some a
                       | Inl e \<Rightarrow> Some HUGGINGFACE))
      in case SentimentAnalysisAPI_analyze key net txt api_provider w of
           (Inr result, w') \<Rightarrow>
             (Inr [(''text'', VStr txt),
                   (''provider'', VProvider (provider result)),
                   (''sentiment'', VStr (sentiment result)),
                   (''score'', VFloat (score result)),
                   (''confidence'', VFloat (fabs (score result)))], w')
         | (Inl e, w') \<Rightarrow>
             (Inl (PyException ''External sentiment analysis failed: '' e), w'))"

section \<open>\<open>routes/sentiment.py\<close>\<close>

text \<open>
  The rows of \<open>models.Analysis\<close> and the authenticated \<open>models.User\<close>, with the
  columns the route reads. The table is the list of its rows.
\<close>

record Analysis =
  analysis_text :: string
  sentiment_score :: pyfloat
  sentiment_label :: string
  user_id :: int

record User =
  user_pk :: int

definition history_entry :: "Analysis \<Rightarrow> pydict" where
  "history_entry analysis =
     [(''text'', VStr (analysis_text analysis)),
      (''sentiment'', VStr (sentiment_label analysis)),
      (''score'', VFloat (sentiment_score analysis)),
      (''confidence'', VFloat (fabs (sentiment_score analysis))),
      (''provider'', VStr ''unknown'')]"

definition get_analysis_history :: "Analysis list \<Rightarrow> User \<Rightarrow> pydict list" where
  "get_analysis_history db current_user =
     (let analyses = filter (\<lambda>a. user_id a = user_pk current_user) db
      in map history_entry analyses)"

section \<open>Concrete runs used below\<close>

text \<open>
  A provider that answers every request with status 200 and one positive
  classification; one that answers with the label POSITIVE and the score \<open>NaN\<close>; an
  integer beyond the double range; a network on which the first three requests time
  out and the provider answers from the fourth on; the state before any call; the
  dicts the first two answers lead to; and two history tables that hold the same rows
  of user 1 among rows of other users.
\<close>

definition reply_positive :: network where
  "reply_positive n =
     PostReturns \<lparr>status_code = 200, body_text = [],
       body_json = Inr (JList [JObj [(''label'', JStr ''POSITIVE''),
                                     (''score'', JFloat (Finite 0.9))]])\<rparr>"


definition huge :: int where
  "huge = 2 ^ 1024"

definition recovers_after_three :: network where
  "recovers_after_three n =
     (if n < 3 then PostRaises (RequestException ''timed out'') else reply_positive n)"

definition start :: world where
  "start = \<lparr>calls = 0, posts = 0, sleeps = []\<rparr>"

definition great_result :: pydict where
  "great_result =
     [(''text'', VStr ''great''), (''provider'', VProvider HUGGINGFACE),
      (''sentiment'', VStr ''positive''), (''score'', VFloat (Finite 0.9)),
      (''confidence'', VFloat (Finite 0.9))]"


definition history_a :: "Analysis list" where
  "history_a =
     [\<lparr>analysis_text = ''good'', sentiment_score = Finite 0.4,
       sentiment_label = ''positive'', user_id = 1\<rparr>,
      \<lparr>analysis_text = ''bad'', sentiment_score = Finite (- 0.5),
       sentiment_label = ''negative'', user_id = 2\<rparr>,
      \<lparr>analysis_text = ''ok'', sentiment_score = Finite 0,
       sentiment_label = ''neutral'', user_id = 1\<rparr>]"

definition history_b :: "Analysis list" where
  "history_b =
     [\<lparr>analysis_text = ''awful'', sentiment_score = Finite (- 0.9),
       sentiment_label = ''negative'', user_id = 3\<rparr>,
      \<lparr>analysis_text = ''good'', sentiment_score = Finite 0.4,
       sentiment_label = ''positive'', user_id = 1\<rparr>,
      \<lparr>analysis_text = ''ok'', sentiment_score = Finite 0,
       sentiment_label = ''neutral'', user_id = 1\<rparr>]"

section \<open>The label thresholds\<close>

text \<open>
  C2. For every compound score \<open>c\<close>, \<open>get_sentiment_label c\<close> is POSITIVE if
  \<open>c \<ge> 0.05\<close>, NEGATIVE if \<open>c \<le> -0.05\<close> and NEUTRAL otherwise; in particular the
  thresholds themselves are labelled POSITIVE and NEGATIVE, and \<open>0.0\<close> is NEUTRAL.
\<close>

theorem get_sentiment_label_thresholds:
  "(c \<ge> 0.05 \<longrightarrow> get_sentiment_label c = POSITIVE) \<and>
   (c \<le> - 0.05 \<longrightarrow> get_sentiment_label c = NEGATIVE) \<and>
   (\<not> c \<ge> 0.05 \<and> \<not> c \<le> - 0.05 \<longrightarrow> get_sentiment_label c = NEUTRAL) \<and>
   get_sentiment_label 0.05 = POSITIVE \<and>
   get_sentiment_label (- 0.05) = NEGATIVE \<and>
   get_sentiment_label 0.0 = NEUTRAL"
  by (simp add: get_sentiment_label_def)

theorem get_sentiment_label_thresholds_witness:
  "(0.3::real) \<ge> 0.05 \<and> get_sentiment_label 0.3 = POSITIVE \<and>
   (- 0.7::real) \<le> - 0.05 \<and> get_sentiment_label (- 0.7) = NEGATIVE \<and>
   \<not> (0.01::real) \<ge> 0.05 \<and> \<not> (0.01::real) \<le> - 0.05 \<and> get_sentiment_label 0.01 = NEUTRAL"
  using get_sentiment_label_thresholds [of "0.3"]
        get_sentiment_label_thresholds [of "- 0.7"]
        get_sentiment_label_thresholds [of "0.01"]
  by simp

section \<open>What the analyzer adds to the scorer\<close>

text \<open>
  \<open>analyze\<close> copies the four scores of the library unchanged and labels the compound
  score; \<open>analyze_text\<close> raises exactly when the library raises.
\<close>

lemma analyze_copies_scores:
  "vader txt = Inr s \<Longrightarrow>
   analyze vader txt =
     Inr [(''scores'', VDict [(''positive'', VFloat (Finite (pos s))),
                              (''negative'', VFloat (Finite (neg s))),
                              (''neutral'', VFloat (Finite (neu s))),
                              (''compound'', VFloat (Finite (compound s)))]),
          (''label'', VLabel (get_sentiment_label (compound s))),
          (''text'', VStr txt)]"
  by (simp add: analyze_def analyze_with_vader_def Let_def)

lemma analyze_text_raises_iff:
  "(\<exists>e. analyze_text vader txt = Inl e) \<longleftrightarrow> (\<exists>e. vader txt = Inl e)"
  by (cases "vader txt") (simp_all add: analyze_text_def analyze_def analyze_with_vader_def Let_def)

section \<open>The external provider: evaluated runs\<close>

lemma lower_POSITIVE: "lower ''POSITIVE'' = ''positive''"
  by code_simp

lemma lower_azure: "lower ''azure'' = ''azure''"
  by code_simp

lemma lower_huggingface: "lower ''huggingface'' = ''huggingface''"
  by code_simp

lemma parse_positive:
  "parse_response ''great''
     (JList [JObj [(''label'', JStr ''POSITIVE''), (''score'', JFloat (Finite 0.9))]]) =
     Inr \<lparr>provider = HUGGINGFACE, result_text = ''great'', sentiment = ''positive'',
          score = Finite 0.9,
          raw_response = JObj [(''label'', JStr ''POSITIVE''), (''score'', JFloat (Finite 0.9))]\<rparr>"
  by (simp add: parse_response_def lower_POSITIVE)


text \<open>An integer score beyond the double range: the product raises \<open>OverflowError\<close>.\<close>

lemma float_of_int_overflow: "float_of_int huge = Inl OverflowError"
  by code_simp

lemma abs_huge: "\<bar>huge\<bar> = huge"
  by (simp add: huge_def)

lemma parse_overflow:
  "parse_response ''great''
     (JList [JObj [(''label'', JStr ''POSITIVE''), (''score'', JInt huge)]]) =
     Inl OverflowError"
  by (simp add: parse_response_def lower_POSITIVE abs_huge float_of_int_overflow)

lemma huggingface_positive:
  "analyze_with_huggingface (Some ''k'') reply_positive ''great'' start =
     (Inr \<lparr>provider = HUGGINGFACE, result_text = ''great'', sentiment = ''positive'',
           score = Finite 0.9,
           raw_response = JObj [(''label'', JStr ''POSITIVE''), (''score'', JFloat (Finite 0.9))]\<rparr>,
      \<lparr>calls = 1, posts = 1, sleeps = []\<rparr>)"
  by (simp add: analyze_with_huggingface_def max_tries_def numeral_2_eq_2
      huggingface_body_def is_set_def reply_positive_def handle_response_def parse_positive
      start_def)


lemma run_huggingface:
  "analyze_with_external_api (Some ''k'') reply_positive ''great'' (Some ''huggingface'') start =
     (Inr great_result, \<lparr>calls = 1, posts = 1, sleeps = []\<rparr>)"
  by (simp add: analyze_with_external_api_def SentimentAnalysisAPI_analyze_def
      huggingface_positive is_set_def APIProvider_of_def lower_huggingface great_result_def)

lemma run_azure:
  "analyze_with_external_api (Some ''k'') reply_positive ''great'' (Some ''azure'') start =
     (Inr great_result, \<lparr>calls = 1, posts = 1, sleeps = []\<rparr>)"
  by (simp add: analyze_with_external_api_def SentimentAnalysisAPI_analyze_def
      huggingface_positive is_set_def APIProvider_of_def lower_azure great_result_def)


section \<open>The external provider: what a successful call returns\<close>





lemma huggingface_body_success:
  assumes "huggingface_body key net txt w = (Inr r, w')"
  shows "\<exists>j. parse_response txt j = Inr r"
  using assms unfolding huggingface_body_def handle_response_def Let_def
  by (auto split: if_splits http_outcome.splits sum.splits)

lemma retry_success:
  "retry k n target w = (Inr r, w') \<Longrightarrow> \<exists>w0 w1. target w0 = (Inr r, w1)"
proof (induction k arbitrary: n w)
  case 0
  then show ?case by auto
next
  case (Suc k)
  then show ?case
    by (auto split: prod.splits sum.splits if_splits)
qed

lemma analyze_with_huggingface_success:
  assumes "analyze_with_huggingface key net txt w = (Inr r, w')"
  shows "\<exists>j. parse_response txt j = Inr r"
proof -
  from assms obtain w0 w1 where "huggingface_body key net txt w0 = (Inr r, w1)"
    unfolding analyze_with_huggingface_def by (blast dest: retry_success)
  then show ?thesis by (rule huggingface_body_success)
qed

lemma SentimentAnalysisAPI_analyze_success:
  assumes "SentimentAnalysisAPI_analyze key net txt prov w = (Inr r, w')"
  shows "\<exists>j. parse_response txt j = Inr r"
  using assms unfolding SentimentAnalysisAPI_analyze_def
  by (auto split: option.splits if_splits prod.splits sum.splits
           dest: analyze_with_huggingface_success)

lemma analyze_with_external_api_success:
  assumes "analyze_with_external_api key net txt prov w = (Inr d, w')"
  shows "\<exists>r j. parse_response txt j = Inr r \<and>
           d = [(''text'', VStr txt), (''provider'', VProvider (provider r)),
                (''sentiment'', VStr (sentiment r)), (''score'', VFloat (score r)),
                (''confidence'', VFloat (fabs (score r)))]"
proof -
  from assms obtain ap r w1 where
    a: "SentimentAnalysisAPI_analyze key net txt ap w = (Inr r, w1)" and
    d: "d = [(''text'', VStr txt), (''provider'', VProvider (provider r)),
             (''sentiment'', VStr (sentiment r)), (''score'', VFloat (score r)),
             (''confidence'', VFloat (fabs (score r)))]"
    unfolding analyze_with_external_api_def Let_def
    by (auto split: prod.splits sum.splits)
  from a obtain j where "parse_response txt j = Inr r"
    by (blast dest: SentimentAnalysisAPI_analyze_success)
  with d show ?thesis by blast
qed




text \<open>
  C4, as claimed: a successful call of \<open>analyze_with_external_api\<close> returns a dict with
  the fields positive, negative, neutral, compound and label. The run below succeeds
  and its dict has none of them.
\<close>

theorem external_result_shape_counterexample:
  "analyze_with_external_api (Some ''k'') reply_positive ''great'' (Some ''huggingface'') start =
     (Inr great_result, \<lparr>calls = 1, posts = 1, sleeps = []\<rparr>) \<and>
   getitem great_result ''positive'' = None \<and>
   getitem great_result ''negative'' = None \<and>
   getitem great_result ''neutral'' = None \<and>
   getitem great_result ''compound'' = None \<and>
   getitem great_result ''label'' = None"
  by (simp add: run_huggingface getitem_def great_result_def)

text \<open>
  C4, amended: a successful call of \<open>analyze_with_external_api\<close> returns a dict whose
  keys are exactly text, provider, sentiment, score and confidence, the fields of the
  route's \<open>SentimentResponse\<close>.
\<close>

theorem external_result_shape:
  assumes "analyze_with_external_api key net txt prov w = (Inr d, w')"
  shows "keys d = [''text'', ''provider'', ''sentiment'', ''score'', ''confidence'']"
  using analyze_with_external_api_success [OF assms] by (auto simp: keys_def)

theorem external_result_shape_witness:
  "analyze_with_external_api (Some ''k'') reply_positive ''great'' (Some ''huggingface'') start =
     (Inr great_result, \<lparr>calls = 1, posts = 1, sleeps = []\<rparr>) \<and>
   keys great_result = [''text'', ''provider'', ''sentiment'', ''score'', ''confidence'']"
  using external_result_shape [OF run_huggingface] run_huggingface by simp

section \<open>The external provider: unrecognised provider names\<close>

lemma SentimentAnalysisAPI_analyze_any_provider:
  "SentimentAnalysisAPI_analyze key net txt prov w =
   SentimentAnalysisAPI_analyze key net txt None w"
proof (cases prov)
  case None
  then show ?thesis by simp
next
  case (Some p)
  then show ?thesis by (cases p) (simp add: SentimentAnalysisAPI_analyze_def)
qed

lemma rewrap_provider: "rewrap e \<noteq> ExternalAPIError ''Provider'' m c"
  by (cases e) simp_all

lemma SentimentAnalysisAPI_analyze_no_provider_error:
  "fst (SentimentAnalysisAPI_analyze key net txt prov w) \<noteq>
     Inl (ExternalAPIError ''Provider'' m c)"
  by (subst SentimentAnalysisAPI_analyze_any_provider)
     (simp add: SentimentAnalysisAPI_analyze_def rewrap_provider split: prod.splits sum.splits)

text \<open>
  C3, as claimed: a provider name that names no supported provider makes
  \<open>analyze_with_external_api\<close> raise an unsupported-provider error, and no other
  provider is substituted. The run below is given the name \<open>azure\<close>, raises nothing
  and returns the answer of HuggingFace.
\<close>

theorem unsupported_provider_counterexample:
  "analyze_with_external_api (Some ''k'') reply_positive ''great'' (Some ''azure'') start =
     (Inr great_result, \<lparr>calls = 1, posts = 1, sleeps = []\<rparr>) \<and>
   getitem great_result ''provider'' = Some (VProvider HUGGINGFACE) \<and>
   APIProvider_of (lower ''azure'') = Inl ValueError"
  by (simp add: run_azure getitem_def great_result_def APIProvider_of_def lower_azure)

text \<open>
  C3, amended: whatever the provider name, \<open>analyze_with_external_api\<close> does exactly
  what it does for the name \<open>huggingface\<close> (an unrecognised name is replaced by
  HuggingFace), and the error it raises is never the unsupported-provider error of
  \<open>SentimentAnalysisAPI.analyze\<close>.
\<close>

theorem unsupported_provider_defaults_to_huggingface:
  "analyze_with_external_api key net txt (Some p) w =
     analyze_with_external_api key net txt (Some ''huggingface'') w \<and>
   fst (analyze_with_external_api key net txt (Some p) w) \<noteq>
     Inl (PyException pfx (ExternalAPIError ''Provider'' m c))"
proof
  show "analyze_with_external_api key net txt (Some p) w =
        analyze_with_external_api key net txt (Some ''huggingface'') w"
    unfolding analyze_with_external_api_def Let_def
    by (subst SentimentAnalysisAPI_analyze_any_provider,
        subst (2) SentimentAnalysisAPI_analyze_any_provider) simp
next
  show "fst (analyze_with_external_api key net txt (Some p) w) \<noteq>
        Inl (PyException pfx (ExternalAPIError ''Provider'' m c))"
  proof -
    define ap where "ap =
      (case Some p of None \<Rightarrow> None
       | Some q \<Rightarrow> if q = [] then None
                  else (case APIProvider_of (lower q) of
                          Inr a \<Rightarrow> Some a | Inl e \<Rightarrow> Some HUGGINGFACE))"
    obtain res w1 where r: "SentimentAnalysisAPI_analyze key net txt ap w = (res, w1)"
      by (cases "SentimentAnalysisAPI_analyze key net txt ap w")
    with SentimentAnalysisAPI_analyze_no_provider_error [of key net "txt" ap w m c]
    have n: "res \<noteq> Inl (ExternalAPIError ''Provider'' m c)" by simp
    have "fst (analyze_with_external_api key net txt (Some p) w) =
          (case res of
             Inr result \<Rightarrow>
               Inr [(''text'', VStr txt), (''provider'', VProvider (provider result)),
                    (''sentiment'', VStr (sentiment result)), (''score'', VFloat (score result)),
                    (''confidence'', VFloat (fabs (score result)))]
           | Inl e \<Rightarrow> Inl (PyException ''External sentiment analysis failed: '' e))"
      unfolding analyze_with_external_api_def Let_def ap_def [symmetric] r
      by (simp split: sum.splits)
    with n show ?thesis by (cases res) auto
  qed
qed

theorem unsupported_provider_defaults_to_huggingface_witness:
  "analyze_with_external_api (Some ''k'') reply_positive ''great'' (Some ''azure'') start =
     analyze_with_external_api (Some ''k'') reply_positive ''great'' (Some ''huggingface'') start \<and>
   fst (analyze_with_external_api (Some ''k'') reply_positive ''great'' (Some ''azure'') start) =
     Inr great_result"
  using unsupported_provider_defaults_to_huggingface
          [of "Some ''k''" reply_positive "''great''" "''azure''" start]
        run_huggingface
  by simp

section \<open>The external provider: retries\<close>

lemma huggingface_body_calls:
  "calls (snd (huggingface_body key net txt w)) = Suc (calls w)"
  unfolding huggingface_body_def Let_def
  by (simp split: http_outcome.splits sum.splits)

lemma huggingface_body_sleeps:
  "sleeps (snd (huggingface_body key net txt w)) = sleeps w"
  unfolding huggingface_body_def Let_def
  by (simp split: http_outcome.splits sum.splits)

lemma retry_calls_bound:
  "calls (snd (retry k n (huggingface_body key net txt) w)) \<le> calls w + Suc k"
proof (induction k arbitrary: n w)
  case 0
  then show ?case by (simp add: huggingface_body_calls)
next
  case (Suc k)
  obtain res w1 where b: "huggingface_body key net txt w = (res, w1)"
    by (cases "huggingface_body key net txt w")
  then have c: "calls w1 = Suc (calls w)"
    using huggingface_body_calls [of key net "txt" w] by simp
  show ?case
  proof (cases res)
    case (Inr r)
    with b c show ?thesis by simp
  next
    case (Inl e)
    show ?thesis
    proof (cases "retryable e")
      case False
      with b c Inl show ?thesis by simp
    next
      case True
      have "calls (snd (retry k (Suc n) (huggingface_body key net txt)
                     (w1\<lparr>sleeps := sleeps w1 @ [expo n]\<rparr>)))
            \<le> calls (w1\<lparr>sleeps := sleeps w1 @ [expo n]\<rparr>) + Suc k"
        by (rule Suc.IH)
      with b c Inl True show ?thesis by simp
    qed
  qed
qed

lemma huggingface_body_posts:
  "posts (snd (huggingface_body key net txt w)) = posts w + (if is_set key then 1 else 0)"
  unfolding huggingface_body_def Let_def
  by (simp split: http_outcome.splits sum.splits)

lemma recovers_first:
  "huggingface_body (Some ''k'') recovers_after_three ''great'' start =
     (Inl (ExternalAPIError ''HuggingFace'' (StrOf (RequestException ''timed out'')) None),
      \<lparr>calls = 1, posts = 1, sleeps = []\<rparr>)"
  by (simp add: huggingface_body_def is_set_def recovers_after_three_def start_def)

lemma recovers_second:
  "huggingface_body (Some ''k'') recovers_after_three ''great''
     (\<lparr>calls = 1, posts = 1, sleeps = []\<rparr>\<lparr>sleeps := sleeps \<lparr>calls = 1, posts = 1, sleeps = []\<rparr> @ [expo 0]\<rparr>) =
     (Inl (ExternalAPIError ''HuggingFace'' (StrOf (RequestException ''timed out'')) None),
      \<lparr>calls = 2, posts = 2, sleeps = [1]\<rparr>)"
  by (simp add: huggingface_body_def is_set_def recovers_after_three_def expo_def)

lemma recovers_third:
  "huggingface_body (Some ''k'') recovers_after_three ''great''
     (\<lparr>calls = 2, posts = 2, sleeps = [1]\<rparr>\<lparr>sleeps := sleeps \<lparr>calls = 2, posts = 2, sleeps = [1]\<rparr> @ [expo 1]\<rparr>) =
     (Inl (ExternalAPIError ''HuggingFace'' (StrOf (RequestException ''timed out'')) None),
      \<lparr>calls = 3, posts = 3, sleeps = [1, 2]\<rparr>)"
  by (simp add: huggingface_body_def is_set_def recovers_after_three_def expo_def)

text \<open>
  C6. \<open>analyze_with_huggingface\<close> never enters its body more than 3 times. When the
  first two calls of the body fail with an exception that the decorator retries and
  the third call fails too, the decorator sleeps between the calls for the values 1
  and 2 of the exponential wait generator, makes no fourth call, and raises the
  exception of the third call to the caller; the body was entered 3 times and, with
  the API key set, 3 requests were posted.
\<close>

theorem huggingface_three_attempts:
  "calls (snd (analyze_with_huggingface key net txt w)) \<le> calls w + 3 \<and>
   (huggingface_body key net txt w = (Inl e1, w1) \<and> retryable e1 \<and>
    huggingface_body key net txt (w1\<lparr>sleeps := sleeps w1 @ [expo 0]\<rparr>) = (Inl e2, w2) \<and>
    retryable e2 \<and>
    huggingface_body key net txt (w2\<lparr>sleeps := sleeps w2 @ [expo 1]\<rparr>) = (Inl e3, w3)
    \<longrightarrow>
    analyze_with_huggingface key net txt w = (Inl e3, w3) \<and>
    calls w3 = calls w + 3 \<and>
    posts w3 = posts w + (if is_set key then 3 else 0) \<and>
    sleeps w3 = sleeps w @ [1, 2])"
proof (intro conjI impI)
  show "calls (snd (analyze_with_huggingface key net txt w)) \<le> calls w + 3"
    using retry_calls_bound [of 2 0 key net "txt" w]
    by (simp add: analyze_with_huggingface_def max_tries_def)
next
  assume a: "huggingface_body key net txt w = (Inl e1, w1) \<and> retryable e1 \<and>
    huggingface_body key net txt (w1\<lparr>sleeps := sleeps w1 @ [expo 0]\<rparr>) = (Inl e2, w2) \<and>
    retryable e2 \<and>
    huggingface_body key net txt (w2\<lparr>sleeps := sleeps w2 @ [expo 1]\<rparr>) = (Inl e3, w3)"
  let ?v1 = "w1\<lparr>sleeps := sleeps w1 @ [expo 0]\<rparr>"
  let ?v2 = "w2\<lparr>sleeps := sleeps w2 @ [expo 1]\<rparr>"
  from a have b1: "huggingface_body key net txt w = (Inl e1, w1)" and r1: "retryable e1"
    and b2: "huggingface_body key net txt ?v1 = (Inl e2, w2)" and r2: "retryable e2"
    and b3: "huggingface_body key net txt ?v2 = (Inl e3, w3)"
    by simp_all
  show "analyze_with_huggingface key net txt w = (Inl e3, w3)"
    using b1 r1 b2 r2 b3
    by (simp add: analyze_with_huggingface_def max_tries_def numeral_2_eq_2)
  have c1: "calls w1 = Suc (calls w)" and s1: "sleeps w1 = sleeps w"
    and p1: "posts w1 = posts w + (if is_set key then 1 else 0)"
    using huggingface_body_calls [of key net "txt" w] huggingface_body_sleeps [of key net "txt" w]
      huggingface_body_posts [of key net "txt" w] b1
    by simp_all
  have c2: "calls w2 = Suc (calls ?v1)" and s2: "sleeps w2 = sleeps ?v1"
    and p2: "posts w2 = posts ?v1 + (if is_set key then 1 else 0)"
    using huggingface_body_calls [of key net "txt" ?v1]
      huggingface_body_sleeps [of key net "txt" ?v1]
      huggingface_body_posts [of key net "txt" ?v1] b2
    by simp_all
  have c3: "calls w3 = Suc (calls ?v2)" and s3: "sleeps w3 = sleeps ?v2"
    and p3: "posts w3 = posts ?v2 + (if is_set key then 1 else 0)"
    using huggingface_body_calls [of key net "txt" ?v2]
      huggingface_body_sleeps [of key net "txt" ?v2]
      huggingface_body_posts [of key net "txt" ?v2] b3
    by simp_all
  show "calls w3 = calls w + 3" using c1 c2 c3 by simp
  show "posts w3 = posts w + (if is_set key then 3 else 0)" using p1 p2 p3 by simp
  show "sleeps w3 = sleeps w @ [1, 2]" using s1 s2 s3 by (simp add: expo_def)
qed

theorem huggingface_three_attempts_witness:
  "huggingface_body (Some ''k'') recovers_after_three ''great'' start =
     (Inl (ExternalAPIError ''HuggingFace'' (StrOf (RequestException ''timed out'')) None),
      \<lparr>calls = 1, posts = 1, sleeps = []\<rparr>) \<and>
   retryable (ExternalAPIError ''HuggingFace'' (StrOf (RequestException ''timed out'')) None) \<and>
   huggingface_body (Some ''k'') recovers_after_three ''great''
     \<lparr>calls = 1, posts = 1, sleeps = [1]\<rparr> =
     (Inl (ExternalAPIError ''HuggingFace'' (StrOf (RequestException ''timed out'')) None),
      \<lparr>calls = 2, posts = 2, sleeps = [1]\<rparr>) \<and>
   huggingface_body (Some ''k'') recovers_after_three ''great''
     \<lparr>calls = 2, posts = 2, sleeps = [1, 2]\<rparr> =
     (Inl (ExternalAPIError ''HuggingFace'' (StrOf (RequestException ''timed out'')) None),
      \<lparr>calls = 3, posts = 3, sleeps = [1, 2]\<rparr>) \<and>
   analyze_with_huggingface (Some ''k'') recovers_after_three ''great'' start =
     (Inl (ExternalAPIError ''HuggingFace'' (StrOf (RequestException ''timed out'')) None),
      \<lparr>calls = 3, posts = 3, sleeps = [1, 2]\<rparr>) \<and>
   recovers_after_three 3 = reply_positive 3"
  using huggingface_three_attempts
          [of "Some ''k''" recovers_after_three "''great''" start
              "ExternalAPIError ''HuggingFace'' (StrOf (RequestException ''timed out'')) None"
              "\<lparr>calls = 1, posts = 1, sleeps = []\<rparr>"
              "ExternalAPIError ''HuggingFace'' (StrOf (RequestException ''timed out'')) None"
              "\<lparr>calls = 2, posts = 2, sleeps = [1]\<rparr>"
              "ExternalAPIError ''HuggingFace'' (StrOf (RequestException ''timed out'')) None"
              "\<lparr>calls = 3, posts = 3, sleeps = [1, 2]\<rparr>"]
        recovers_first recovers_second recovers_third
  by (simp add: expo_def recovers_after_three_def)

section \<open>The history route\<close>

text \<open>
  C10. \<open>get_analysis_history\<close> returns, in table order, one entry for each stored
  analysis whose \<open>user_id\<close> is the id of the current user, carrying the text, the label
  and the score of that analysis (with the absolute value of the score as confidence
  and the provider \<open>unknown\<close>), and nothing else: two tables that hold the same rows
  of that user give the same answer, whatever rows of other users they hold.
\<close>

theorem history_only_own_rows:
  "get_analysis_history db u =
     map (\<lambda>a. [(''text'', VStr (analysis_text a)),
                (''sentiment'', VStr (sentiment_label a)),
                (''score'', VFloat (sentiment_score a)),
                (''confidence'', VFloat (fabs (sentiment_score a))),
                (''provider'', VStr ''unknown'')])
         (filter (\<lambda>a. user_id a = user_pk u) db) \<and>
   (\<forall>db'. filter (\<lambda>a. user_id a = user_pk u) db' = filter (\<lambda>a. user_id a = user_pk u) db
        \<longrightarrow> get_analysis_history db' u = get_analysis_history db u)"
  by (simp add: get_analysis_history_def history_entry_def fun_eq_iff)

theorem history_only_own_rows_witness:
  "filter (\<lambda>a. user_id a = user_pk \<lparr>user_pk = 1\<rparr>) history_b =
     filter (\<lambda>a. user_id a = user_pk \<lparr>user_pk = 1\<rparr>) history_a \<and>
   get_analysis_history history_b \<lparr>user_pk = 1\<rparr> = get_analysis_history history_a \<lparr>user_pk = 1\<rparr> \<and>
   get_analysis_history history_a \<lparr>user_pk = 1\<rparr> =
     [[(''text'', VStr ''good''), (''sentiment'', VStr ''positive''),
       (''score'', VFloat (Finite 0.4)), (''confidence'', VFloat (Finite 0.4)),
       (''provider'', VStr ''unknown'')],
      [(''text'', VStr ''ok''), (''sentiment'', VStr ''neutral''),
       (''score'', VFloat (Finite 0)), (''confidence'', VFloat (Finite 0)),
       (''provider'', VStr ''unknown'')]]"
proof -
  have h: "filter (\<lambda>a. user_id a = user_pk \<lparr>user_pk = 1\<rparr>) history_b =
           filter (\<lambda>a. user_id a = user_pk \<lparr>user_pk = 1\<rparr>) history_a"
    by (simp add: history_a_def history_b_def)
  have f: "filter (\<lambda>a. user_id a = user_pk \<lparr>user_pk = 1\<rparr>) history_a =
      [\<lparr>analysis_text = ''good'', sentiment_score = Finite 0.4,
        sentiment_label = ''positive'', user_id = 1\<rparr>,
       \<lparr>analysis_text = ''ok'', sentiment_score = Finite 0,
        sentiment_label = ''neutral'', user_id = 1\<rparr>]"
    by (simp add: history_a_def)
  from history_only_own_rows [of history_a "\<lparr>user_pk = 1\<rparr>"] h f show ?thesis by simp
qed

end
